theory Spec2Isabelle
  imports Complex_Main
begin

section \<open>Spike sonification: shared conventions\<close>

text \<open>
  The repository holds three scripts: \<^verbatim>\<open>parquet_to_midi.py\<close> (spike table to MIDI
  document) and two MIDI-to-WAV renderers, \<^verbatim>\<open>midi_to_wave.py\<close> and
  \<^verbatim>\<open>midi_to_wave_suyee.py\<close>.

  Conventions of the embedding:
  \<^item> Python \<open>int\<close> is \<open>int\<close>; Python \<open>float\<close> (IEEE-754 binary64) is idealised as
    \<open>real\<close>, so rounding, overflow and NaN in the \<^emph>\<open>input\<close> data are outside the model.
    The one place where the scripts themselves can produce a NaN (dividing a silent
    buffer by its peak 0) is modelled explicitly, see \<open>np_float\<close>.
  \<^item> A raised exception is the \<open>Inl\<close> of a sum; the classes are those the scripts can
    meet. \<open>KeyboardInterrupt\<close> stands for the signals that derive from
    \<open>BaseException\<close> only and that an \<open>except Exception\<close> clause does not catch.
  \<^item> Behaviour of the libraries the scripts call (the Python builtin \<open>float\<close>,
    NumPy's legacy generator, the table reader's row selection, the MIDI writer and the
    synthesizers) is not code of the repository: it is a parameter, collected in the
    records \<open>converter_lib\<close> and \<open>synth_lib\<close>.
\<close>

datatype py_exception =
    ValueError
  | ImportError
  | OSError
  | FileNotFoundError
  | IndexError
  | TypeError
  | ZeroDivisionError
  | OtherException string
  | KeyboardInterrupt

text \<open>\<open>isinstance(e, Exception)\<close>: everything but the \<open>BaseException\<close>-only signal.\<close>

fun is_Exception :: "py_exception \<Rightarrow> bool" where
  "is_Exception KeyboardInterrupt = False"
| "is_Exception _ = True"

subsection \<open>Module configuration of \<^verbatim>\<open>parquet_to_midi.py\<close>\<close>

text \<open>
  The module-level constants read by \<open>get_pitch_for_unit\<close>. They are ordinary module
  attributes, so the functions take them as a record; \<open>module_config\<close> holds the values
  written in the file.
\<close>

record config =
  CUSTOM_PITCHES :: "int \<rightharpoonup> int"
  DEFAULT_PITCH :: int
  PITCH_RANGE :: "int \<times> int"
  MAX_UNITS :: int

definition module_config :: config where
  "module_config =
     \<lparr> CUSTOM_PITCHES = [0 \<mapsto> 60, 1 \<mapsto> 64, 2 \<mapsto> 67, 3 \<mapsto> 72, 4 \<mapsto> 55, 5 \<mapsto> 69],
       DEFAULT_PITCH = 60,
       PITCH_RANGE = (48, 84),
       MAX_UNITS = 16 \<rparr>"

subsection \<open>Library parameters of the converter\<close>

record row =
  unit_id :: int
  spike_times :: string

text \<open>
  The objects of the MIDI library that the converter builds. \<open>Note.end\<close> and
  \<open>Instrument.notes\<close> are reserved words here, hence \<open>note_end\<close> and \<open>inst_notes\<close>.
\<close>

record Note =
  velocity :: int
  pitch :: int
  start :: real
  note_end :: real

record Instrument =
  program :: int
  name :: string
  inst_notes :: "Note list"

record PrettyMIDI =
  initial_tempo :: real
  instruments :: "Instrument list"

text \<open>
  \<open>'g\<close> is the state of NumPy's global legacy generator.
  \<^item> \<open>float_of_str\<close>: the builtin \<open>float(v)\<close> on a token.
  \<^item> \<open>random_seed\<close>: \<open>np.random.seed(n)\<close>, the state it installs, or the error it raises.
  \<^item> \<open>random_randint\<close>: \<open>np.random.randint(low, high)\<close> on a state: the draw and the
    state after it, or the error it raises.
  \<^item> \<open>select_rows\<close>: \<open>df[units_to_sonify]\<close> of the table library.
  \<^item> \<open>write_error\<close>: the error \<open>pm.write(path)\<close> raises, if it raises one.
\<close>

record 'g converter_lib =
  float_of_str :: "string \<Rightarrow> py_exception + real"
  random_seed :: "int \<Rightarrow> py_exception + 'g"
  random_randint :: "'g \<Rightarrow> int \<Rightarrow> int \<Rightarrow> py_exception + (int \<times> 'g)"
  select_rows :: "row list \<Rightarrow> int list \<Rightarrow> py_exception + row list"
  write_error :: "string \<Rightarrow> PrettyMIDI \<Rightarrow> py_exception option"

section \<open>Pitch assignment: \<open>get_pitch_for_unit\<close>\<close>

text \<open>\<open>int(x)\<close> on a float truncates towards zero.\<close>

definition py_int :: "real \<Rightarrow> int" where
  "py_int x = (if 0 \<le> x then \<lfloor>x\<rfloor> else \<lceil>x\<rceil>)"

text \<open>
  The function returns the pitch, or the exception it raises, together with the state
  of the global generator afterwards: only the \<open>random\<close> branch touches the generator.
  If \<open>np.random.seed\<close> raises, the state is unchanged; if \<open>randint\<close> raises, the seeded
  state stays installed.
\<close>

definition get_pitch_for_unit ::
  "'g converter_lib \<Rightarrow> config \<Rightarrow> 'g \<Rightarrow> int \<Rightarrow> int \<Rightarrow> real list \<Rightarrow> string
     \<Rightarrow> (py_exception + int) \<times> 'g" where
  "get_pitch_for_unit lib cfg g unit_idx uid spikes mode =
     (if mode = ''custom'' then
        (Inr (case CUSTOM_PITCHES cfg unit_idx of Some p \<Rightarrow> p | None \<Rightarrow> DEFAULT_PITCH cfg), g)
      else if mode = ''spread'' then
        (let (min_pitch, max_pitch) = PITCH_RANGE cfg;
             normalized = real_of_int unit_idx / real_of_int (max (MAX_UNITS cfg - 1) 1)
         in (Inr (py_int (real_of_int min_pitch + normalized * real_of_int (max_pitch - min_pitch))), g))
      else if mode = ''octaves'' then
        (let base = 48;
             octave = (unit_idx div 12) * 12;
             note_in_octave = unit_idx mod 12
         in (Inr (base + octave + note_in_octave), g))
      else if mode = ''firing_rate'' then
        (if length spikes > 0 then
           (let duration = last spikes - hd spikes;
                firing_rate = (if duration > 0 then real (length spikes) / duration else 0);
                (min_pitch, max_pitch) = PITCH_RANGE cfg;
                normalized = min (firing_rate / 50) 1
            in (Inr (py_int (real_of_int min_pitch + normalized * real_of_int (max_pitch - min_pitch))), g))
         else (Inr (DEFAULT_PITCH cfg), g))
      else if mode = ''random'' then
        (case random_seed lib uid of
           Inl e \<Rightarrow> (Inl e, g)
         | Inr g1 \<Rightarrow>
             (let (min_pitch, max_pitch) = PITCH_RANGE cfg
              in case random_randint lib g1 min_pitch (max_pitch + 1) of
                   Inl e \<Rightarrow> (Inl e, g1)
                 | Inr (p, g2) \<Rightarrow> (Inr p, g2)))
      else (Inr (DEFAULT_PITCH cfg), g))"

section \<open>Parsing a row: \<open>parse_spike_times\<close>\<close>

text \<open>
  \<open>spike_times_str.strip("[]")\<close> removes, from both ends, every character that is an
  opening or a closing square bracket.
\<close>

definition is_bracket :: "char \<Rightarrow> bool" where
  "is_bracket c = (c = CHR ''['' \<or> c = CHR '']'')"

definition strip_brackets :: "string \<Rightarrow> string" where
  "strip_brackets s = rev (dropWhile is_bracket (rev (dropWhile is_bracket s)))"

text \<open>
  \<open>cleaned.split()\<close> cuts at runs of whitespace and yields no empty token. The ASCII
  whitespace of Python's \<open>str\<close> is: space, tab, newline, vertical tab, form feed,
  carriage return and the separators 0x1C to 0x1F.
\<close>

definition is_space :: "char \<Rightarrow> bool" where
  "is_space c = (of_char c \<in> set [32, 9, 10, 11, 12, 13, 28, 29, 30, 31 :: nat])"

fun split_from :: "string \<Rightarrow> string \<Rightarrow> string list" where
  "split_from cur [] = (if cur = [] then [] else [cur])"
| "split_from cur (c # cs) =
     (if is_space c then (if cur = [] then split_from [] cs else cur # split_from [] cs)
      else split_from (cur @ [c]) cs)"

definition split_ws :: "string \<Rightarrow> string list" where
  "split_ws s = split_from [] s"

text \<open>The list comprehension \<open>[float(v) for v in values]\<close>: the first failure is raised.\<close>

fun floats_of :: "'g converter_lib \<Rightarrow> string list \<Rightarrow> py_exception + real list" where
  "floats_of lib [] = Inr []"
| "floats_of lib (v # vs) =
     (case float_of_str lib v of
        Inl e \<Rightarrow> Inl e
      | Inr x \<Rightarrow> (case floats_of lib vs of Inl e \<Rightarrow> Inl e | Inr xs \<Rightarrow> Inr (x # xs)))"

definition parse_spike_times :: "'g converter_lib \<Rightarrow> string \<Rightarrow> py_exception + real list" where
  "parse_spike_times lib spike_times_str =
     (let cleaned = strip_brackets spike_times_str;
          values = split_ws cleaned
      in floats_of lib values)"

section \<open>Conversion: \<open>create_midi_from_spikes\<close>\<close>

text \<open>
  The file system is a store from paths to contents; the converter reads a table from
  it and writes a MIDI document to it. A WAV file holds its sample rate and its 16-bit
  samples (\<open>None\<close> for a sample whose value NumPy does not define, see \<open>astype_int16\<close>).
\<close>

datatype file_content =
    ParquetFile "row list"
  | MidiFile PrettyMIDI
  | WavFile int "int option list"

type_synonym files = "string \<rightharpoonup> file_content"

record 'g conv_state =
  c_files :: files
  c_rng :: 'g

definition read_parquet :: "files \<Rightarrow> string \<Rightarrow> py_exception + row list" where
  "read_parquet fs path =
     (case fs path of
        None \<Rightarrow> Inl FileNotFoundError
      | Some (ParquetFile rows) \<Rightarrow> Inr rows
      | Some _ \<Rightarrow> Inl (OtherException ''not a Parquet file''))"

text \<open>\<open>if units_to_sonify is not None: df = df[units_to_sonify]\<close>\<close>

definition filter_units ::
  "'g converter_lib \<Rightarrow> int list option \<Rightarrow> row list \<Rightarrow> py_exception + row list" where
  "filter_units lib units_to_sonify df =
     (case units_to_sonify of None \<Rightarrow> Inr df | Some sel \<Rightarrow> select_rows lib df sel)"

text \<open>
  \<open>if len(df) > max_units: df = df[:max_units]\<close>, with the slice read as Python reads
  it: a negative bound counts from the end.
\<close>

definition limit_units :: "int \<Rightarrow> row list \<Rightarrow> row list" where
  "limit_units max_units df =
     (if int (length df) > max_units then
        (if 0 \<le> max_units then take (nat max_units) df
         else take (nat (int (length df) + max_units)) df)
      else df)"

text \<open>
  \<open>str(n)\<close> for the instrument name \<open>f"Unit_{unit_id}"\<close>; \<open>digit_char\<close> is only
  applied to numbers below 10.
\<close>

definition digit_char :: "nat \<Rightarrow> char" where
  "digit_char d = ''0123456789'' ! d"

fun str_nat :: "nat \<Rightarrow> string" where
  "str_nat n = (if n < 10 then [digit_char n] else str_nat (n div 10) @ [digit_char (n mod 10)])"

declare str_nat.simps [simp del]

definition str_int :: "int \<Rightarrow> string" where
  "str_int i = (if i < 0 then CHR ''-'' # str_nat (nat (- i)) else str_nat (nat i))"

text \<open>
  The body of the loop \<open>for idx, row in enumerate(df.iter_rows(named=True))\<close>, lines
  149 to 180: the index, the document built so far and the generator state are carried
  along. An exception leaves the loop at once. The console output of the converter is
  not modelled.
\<close>

fun process_units ::
  "'g converter_lib \<Rightarrow> config \<Rightarrow> real \<Rightarrow> real \<Rightarrow> int \<Rightarrow> string
     \<Rightarrow> int \<Rightarrow> row list \<Rightarrow> PrettyMIDI \<Rightarrow> 'g \<Rightarrow> (py_exception + PrettyMIDI) \<times> 'g" where
  "process_units lib cfg time_scale note_duration base_velocity pitch_mode idx [] pm g = (Inr pm, g)"
| "process_units lib cfg time_scale note_duration base_velocity pitch_mode idx (r # rest) pm g =
     (case parse_spike_times lib (spike_times r) of
        Inl e \<Rightarrow> (Inl e, g)
      | Inr spikes \<Rightarrow>
          (let spike_times_scaled = map (\<lambda>s. s * time_scale) spikes
           in case get_pitch_for_unit lib cfg g idx (unit_id r) spikes pitch_mode of
                (Inl e, g') \<Rightarrow> (Inl e, g')
              | (Inr p, g') \<Rightarrow>
                  (let prog = idx mod 128;
                       instrument =
                         \<lparr> program = prog,
                           name = ''Unit_'' @ str_int (unit_id r),
                           inst_notes =
                             map (\<lambda>spike_time.
                                    \<lparr> velocity = base_velocity, pitch = p,
                                      start = spike_time,
                                      note_end = spike_time + note_duration \<rparr>)
                                 spike_times_scaled \<rparr>
                   in process_units lib cfg time_scale note_duration base_velocity pitch_mode
                        (idx + 1) rest
                        (pm\<lparr>instruments := instruments pm @ [instrument]\<rparr>) g')))"

text \<open>\<open>[note.end for inst in pm.instruments for note in inst.notes]\<close>\<close>

definition note_ends :: "PrettyMIDI \<Rightarrow> real list" where
  "note_ends pm = concat (map (\<lambda>inst. map note_end (inst_notes inst)) (instruments pm))"

text \<open>The builtin \<open>max\<close> of a list raises \<open>ValueError\<close> on the empty list.\<close>

fun py_max :: "real list \<Rightarrow> py_exception + real" where
  "py_max [] = Inl ValueError"
| "py_max (x # xs) = Inr (fold max xs x)"

definition create_midi_from_spikes ::
  "'g converter_lib \<Rightarrow> config \<Rightarrow> 'g conv_state \<Rightarrow> string \<Rightarrow> string \<Rightarrow> real \<Rightarrow> real \<Rightarrow> int
     \<Rightarrow> int list option \<Rightarrow> int \<Rightarrow> string \<Rightarrow> (py_exception + PrettyMIDI) \<times> 'g conv_state" where
  "create_midi_from_spikes lib cfg w parquet_file output_midi time_scale note_duration
       base_velocity units_to_sonify max_units pitch_mode =
     (case read_parquet (c_files w) parquet_file of
        Inl e \<Rightarrow> (Inl e, w)
      | Inr df0 \<Rightarrow>
     (case filter_units lib units_to_sonify df0 of
        Inl e \<Rightarrow> (Inl e, w)
      | Inr df1 \<Rightarrow>
     (let df = limit_units max_units df1;
          pm0 = \<lparr> initial_tempo = 120, instruments = [] \<rparr>
      in case process_units lib cfg time_scale note_duration base_velocity pitch_mode
                0 df pm0 (c_rng w) of
           (Inl e, g) \<Rightarrow> (Inl e, w\<lparr>c_rng := g\<rparr>)
         | (Inr pm, g) \<Rightarrow>
             (case write_error lib output_midi pm of
                Some e \<Rightarrow> (Inl e, w\<lparr>c_rng := g\<rparr>)
              | None \<Rightarrow>
                  (let w' = \<lparr> c_files = (c_files w)(output_midi \<mapsto> MidiFile pm), c_rng = g \<rparr>
                   in case py_max (note_ends pm) of
                        Inl e \<Rightarrow> (Inl e, w')
                      | Inr total_duration \<Rightarrow> (Inr pm, w'))))))"

section \<open>Rendering: \<open>midi_to_wav\<close> and \<open>midi_to_wav_suyee\<close>\<close>

text \<open>
  The synthesizers return a mono buffer of finite samples (\<open>real list\<close>).
  \<^item> \<open>fluidsynth pm fs (Some sf)\<close> is \<open>pm.fluidsynth(fs=fs, synthesizer=sf)\<close>,
    \<open>fluidsynth pm fs None\<close> is \<open>pm.fluidsynth(fs=fs)\<close>;
  \<^item> \<open>synthesize pm fs\<close> is the built-in \<open>pm.synthesize(fs=fs)\<close>;
  \<^item> \<open>wav_write_error path\<close> is the error \<open>scipy.io.wavfile.write\<close> raises, if any.
\<close>

record synth_lib =
  fluidsynth :: "PrettyMIDI \<Rightarrow> int \<Rightarrow> string option \<Rightarrow> py_exception + real list"
  synthesize :: "PrettyMIDI \<Rightarrow> int \<Rightarrow> py_exception + real list"
  wav_write_error :: "string \<Rightarrow> py_exception option"

text \<open>
  What a run does besides changing files: the lines it prints and the synthesizer calls
  it makes, in order. A printed line whose text formats a value carries the value.
\<close>

datatype event =
    Print string
  | Print_not_available py_exception
  | Print_duration real
  | Print_sample_rate int
  | Call_fluidsynth "string option"
  | Call_synthesize

record render_state =
  r_files :: files
  r_trace :: "event list"

definition emit :: "event list \<Rightarrow> render_state \<Rightarrow> render_state" where
  "emit es s = s\<lparr>r_trace := r_trace s @ es\<rparr>"

definition load_midi :: "files \<Rightarrow> string \<Rightarrow> py_exception + PrettyMIDI" where
  "load_midi fs path =
     (case fs path of
        None \<Rightarrow> Inl FileNotFoundError
      | Some (MidiFile pm) \<Rightarrow> Inr pm
      | Some _ \<Rightarrow> Inl (OtherException ''not a MIDI file''))"

subsection \<open>NumPy arithmetic on the buffer\<close>

text \<open>
  Dividing by the peak is the one operation that can leave the finite floats: NumPy
  does not raise on a zero divisor, it yields NaN for \<open>0 / 0\<close> and a signed infinity
  otherwise.
\<close>

datatype np_float = Fin real | NaN | PInf | NInf

definition np_true_divide :: "real \<Rightarrow> real \<Rightarrow> np_float" where
  "np_true_divide x y =
     (if y \<noteq> 0 then Fin (x / y)
      else if x = 0 then NaN
      else if (0 < x) then PInf else NInf)"

fun np_multiply :: "np_float \<Rightarrow> real \<Rightarrow> np_float" where
  "np_multiply (Fin v) k = Fin (v * k)"
| "np_multiply NaN k = NaN"
| "np_multiply PInf k = (if 0 < k then PInf else if k < 0 then NInf else NaN)"
| "np_multiply NInf k = (if 0 < k then NInf else if k < 0 then PInf else NaN)"

text \<open>
  \<open>.astype(np.int16)\<close> truncates towards zero. NumPy defines the result only for a
  value that fits; for NaN, an infinity or a value out of range the sample is \<open>None\<close>.
\<close>

fun astype_int16 :: "np_float \<Rightarrow> int option" where
  "astype_int16 (Fin v) =
     (if - 32768 \<le> py_int v \<and> py_int v \<le> 32767 then Some (py_int v) else None)"
| "astype_int16 _ = None"

text \<open>\<open>np.max\<close> raises \<open>ValueError\<close> on an array of size zero.\<close>

fun np_max :: "real list \<Rightarrow> py_exception + real" where
  "np_max [] = Inl ValueError"
| "np_max (x # xs) = Inr (fold max xs x)"

definition np_abs :: "real list \<Rightarrow> real list" where
  "np_abs xs = map abs xs"

text \<open>
  Lines 57 to 68 of \<^verbatim>\<open>midi_to_wave_suyee.py\<close>, the same as lines 38 to 49 of
  \<^verbatim>\<open>midi_to_wave.py\<close>: quantize, write, report. \<open>len(audio_data) / sample_rate\<close>
  raises on a zero rate, after the file is written. The report lines are kept without
  their leading line break and check mark.
\<close>

definition write_pcm ::
  "synth_lib \<Rightarrow> render_state \<Rightarrow> string \<Rightarrow> int \<Rightarrow> np_float list
     \<Rightarrow> (py_exception + unit) \<times> render_state" where
  "write_pcm lib s output_wav sample_rate audio_data =
     (let pcm = map (\<lambda>v. astype_int16 (np_multiply v 32767)) audio_data;
          s1 = emit [Print (''Saving to '' @ output_wav @ ''...'')] s
      in case wav_write_error lib output_wav of
           Some e \<Rightarrow> (Inl e, s1)
         | None \<Rightarrow>
             (let s2 = s1\<lparr>r_files := (r_files s1)(output_wav \<mapsto> WavFile sample_rate pcm)\<rparr>
              in if sample_rate = 0 then (Inl ZeroDivisionError, s2)
                 else
                   (Inr (),
                    emit [Print ''Audio file created!'',
                          Print_duration (real (length pcm) / real_of_int sample_rate),
                          Print_sample_rate sample_rate,
                          Print (''  File: '' @ output_wav),
                          Print ''You can now play this in any audio player!''] s2)))"

subsection \<open>The plain renderer, \<^verbatim>\<open>midi_to_wave.py\<close>\<close>

definition midi_to_wav ::
  "synth_lib \<Rightarrow> render_state \<Rightarrow> string \<Rightarrow> string \<Rightarrow> int \<Rightarrow> (py_exception + unit) \<times> render_state" where
  "midi_to_wav lib s midi_file output_wav sample_rate =
     (let s1 = emit [Print (''Loading MIDI file: '' @ midi_file)] s
      in case load_midi (r_files s1) midi_file of
           Inl e \<Rightarrow> (Inl e, s1)
         | Inr pm \<Rightarrow>
             (let s2 = emit [Print ''Synthesizing audio (this may take a moment)...'',
                             Call_fluidsynth None] s1
              in case fluidsynth lib pm sample_rate None of
                   Inl e \<Rightarrow> (Inl e, s2)
                 | Inr audio_data \<Rightarrow>
                     (case np_max (np_abs audio_data) of
                        Inl e \<Rightarrow> (Inl e, s2)
                      | Inr peak \<Rightarrow>
                          write_pcm lib s2 output_wav sample_rate
                            (map (\<lambda>x. np_true_divide x peak) audio_data))))"

subsection \<open>The renderer with fallbacks, \<^verbatim>\<open>midi_to_wave_suyee.py\<close>\<close>

text \<open>
  \<open>except (ImportError, OSError, Exception)\<close>: the clause catches an exception that is
  an instance of one of the three classes.
\<close>

definition caught :: "py_exception \<Rightarrow> bool" where
  "caught e = (e = ImportError \<or> e = OSError \<or> is_Exception e)"

definition soundfont :: string where
  "soundfont = ''./CindyBells.sf2''"

text \<open>
  Lines 34 to 48: the nested \<open>try\<close> blocks. The result is the buffer (or the exception
  that escapes) and the events of the attempt, in order.
\<close>

definition synthesize_with_fallback ::
  "synth_lib \<Rightarrow> PrettyMIDI \<Rightarrow> int \<Rightarrow> (py_exception + real list) \<times> event list" where
  "synthesize_with_fallback lib pm sample_rate =
     (case fluidsynth lib pm sample_rate (Some soundfont) of
        Inr audio_data \<Rightarrow>
          (Inr audio_data,
           [Call_fluidsynth (Some soundfont), Print ''Using FluidSynth with CindyBells.sf2''])
      | Inl e \<Rightarrow>
          if \<not> caught e then (Inl e, [Call_fluidsynth (Some soundfont)])
          else
            (case fluidsynth lib pm sample_rate None of
               Inr audio_data \<Rightarrow>
                 (Inr audio_data,
                  [Call_fluidsynth (Some soundfont), Print_not_available e,
                   Call_fluidsynth None, Print ''Using FluidSynth with default soundfont''])
             | Inl e2 \<Rightarrow>
                 if \<not> caught e2 then
                   (Inl e2,
                    [Call_fluidsynth (Some soundfont), Print_not_available e, Call_fluidsynth None])
                 else
                   (synthesize lib pm sample_rate,
                    [Call_fluidsynth (Some soundfont), Print_not_available e, Call_fluidsynth None,
                     Print ''Using built-in synthesizer (no FluidSynth)'', Call_synthesize])))"

definition midi_to_wav_suyee ::
  "synth_lib \<Rightarrow> render_state \<Rightarrow> string \<Rightarrow> string \<Rightarrow> int \<Rightarrow> (py_exception + unit) \<times> render_state" where
  "midi_to_wav_suyee lib s midi_file output_wav sample_rate =
     (let s1 = emit [Print (''Loading MIDI file: '' @ midi_file)] s
      in case load_midi (r_files s1) midi_file of
           Inl e \<Rightarrow> (Inl e, s1)
         | Inr pm \<Rightarrow>
             (let s2 = emit [Print ''Synthesizing audio (this may take a moment)...''] s1;
                  (result, events) = synthesize_with_fallback lib pm sample_rate;
                  s3 = emit events s2
              in case result of
                   Inl e \<Rightarrow> (Inl e, s3)
                 | Inr audio_data \<Rightarrow>
                     if length audio_data > 0 then
                       (case np_max (np_abs audio_data) of
                          Inl e \<Rightarrow> (Inl e, s3)
                        | Inr peak \<Rightarrow>
                            write_pcm lib s3 output_wav sample_rate
                              (map (\<lambda>x. np_true_divide x peak) audio_data))
                     else (Inr (), emit [Print ''Warning: No audio data generated!''] s3)))"

text \<open>The events of a trace that are synthesizer calls.\<close>

fun is_call :: "event \<Rightarrow> bool" where
  "is_call (Call_fluidsynth sf) = True"
| "is_call Call_synthesize = True"
| "is_call _ = False"

definition calls :: "event list \<Rightarrow> event list" where
  "calls es = filter is_call es"

section \<open>The contract of \<open>np.random.randint\<close>\<close>

text \<open>
  What NumPy documents for \<open>randint(low, high)\<close>: with \<open>low < high\<close> it returns an
  integer from \<open>low\<close> (inclusive) to \<open>high\<close> (exclusive); otherwise it raises.
\<close>

definition randint_in_range :: "'g converter_lib \<Rightarrow> bool" where
  "randint_in_range lib =
     (\<forall>g low high.
        if low < high
        then (\<exists>p g'. random_randint lib g low high = Inr (p, g') \<and> low \<le> p \<and> p < high)
        else (\<exists>e. random_randint lib g low high = Inl e))"

text \<open>
  Pitch assignment can raise only in \<open>random\<close> mode, and only through the library:
  \<open>pitch_defined\<close> says that the library accepts the identifier as a seed and then
  draws from the configured range.
\<close>

definition pitch_defined :: "'g converter_lib \<Rightarrow> config \<Rightarrow> string \<Rightarrow> int \<Rightarrow> bool" where
  "pitch_defined lib cfg mode uid =
     (if mode = ''random''
      then (\<exists>g1 p g2. random_seed lib uid = Inr g1
              \<and> random_randint lib g1 (fst (PITCH_RANGE cfg)) (snd (PITCH_RANGE cfg) + 1) = Inr (p, g2))
      else True)"

section \<open>Concrete libraries and inputs for the instances\<close>

text \<open>
  A small stand-in for the libraries, used where a theorem is instantiated: \<open>float\<close>
  knows three tokens, the generator is a linear congruential one that accepts the
  seeds NumPy accepts (0 to \<open>2^32 - 1\<close>) and draws from the half-open range, row
  selection is by position, and writing never fails.
\<close>

definition demo_float :: "string \<Rightarrow> py_exception + real" where
  "demo_float v =
     (if v = ''1.5'' then Inr (3 / 2)
      else if v = ''0.25'' then Inr (1 / 4)
      else if v = ''2.0'' then Inr 2
      else Inl ValueError)"

definition demo_seed :: "int \<Rightarrow> py_exception + nat" where
  "demo_seed n = (if 0 \<le> n \<and> n < 4294967296 then Inr (nat n) else Inl ValueError)"

definition demo_randint :: "nat \<Rightarrow> int \<Rightarrow> int \<Rightarrow> py_exception + (int \<times> nat)" where
  "demo_randint g low high =
     (if low < high then
        Inr (low + int (g * 1103515245 + 12345) mod (high - low),
             (g * 1103515245 + 12345) mod 4294967296)
      else Inl ValueError)"

definition demo_select :: "row list \<Rightarrow> int list \<Rightarrow> py_exception + row list" where
  "demo_select df sel =
     (if list_all (\<lambda>i. 0 \<le> i \<and> i < int (length df)) sel then Inr (map (\<lambda>i. df ! nat i) sel)
      else Inl IndexError)"

definition demo_lib :: "nat converter_lib" where
  "demo_lib =
     \<lparr> float_of_str = demo_float,
       random_seed = demo_seed,
       random_randint = demo_randint,
       select_rows = demo_select,
       write_error = (\<lambda>path pm. None) \<rparr>"

text \<open>
  A synthesizer library with fixed outcomes: \<open>with_soundfont\<close> for the call that names a
  soundfont, \<open>without\<close> for the call that names none, \<open>builtin\<close> for \<open>synthesize\<close>.
  Writing the WAV file never fails.
\<close>

definition demo_synth ::
  "(py_exception + real list) \<Rightarrow> (py_exception + real list) \<Rightarrow> (py_exception + real list)
     \<Rightarrow> synth_lib" where
  "demo_synth with_soundfont without builtin =
     \<lparr> fluidsynth = (\<lambda>pm fs sf. case sf of Some f \<Rightarrow> with_soundfont | None \<Rightarrow> without),
       synthesize = (\<lambda>pm fs. builtin),
       wav_write_error = (\<lambda>path. None) \<rparr>"

text \<open>A document without instruments, for which the synthesizers return no samples.\<close>

definition empty_midi :: PrettyMIDI where
  "empty_midi = \<lparr> initial_tempo = 120, instruments = [] \<rparr>"

definition empty_midi_state :: render_state where
  "empty_midi_state = \<lparr> r_files = [''in.mid'' \<mapsto> MidiFile empty_midi], r_trace = [] \<rparr>"

text \<open>Tables for the converter: two units with one spike at 1.5 s each, and two silent units.\<close>

definition two_unit_table :: "row list" where
  "two_unit_table =
     [\<lparr> unit_id = 7, spike_times = ''[1.5]'' \<rparr>, \<lparr> unit_id = 9, spike_times = ''[1.5]'' \<rparr>]"

definition two_unit_world :: "nat conv_state" where
  "two_unit_world = \<lparr> c_files = [''spikes.parquet'' \<mapsto> ParquetFile two_unit_table], c_rng = 0 \<rparr>"

definition silent_table :: "row list" where
  "silent_table =
     [\<lparr> unit_id = 3, spike_times = ''[]'' \<rparr>, \<lparr> unit_id = 4, spike_times = ''[ ]'' \<rparr>]"

definition silent_world :: "nat conv_state" where
  "silent_world = \<lparr> c_files = [''spikes.parquet'' \<mapsto> ParquetFile silent_table], c_rng = 0 \<rparr>"

text \<open>The document the converter returns for \<open>two_unit_table\<close> when \<open>max_units\<close> is 1.\<close>

definition first_unit_only :: PrettyMIDI where
  "first_unit_only =
     \<lparr> initial_tempo = 120,
       instruments =
         [\<lparr> program = 0, name = ''Unit_7'',
            inst_notes = [\<lparr> velocity = 80, pitch = 60, start = 3 / 20, note_end = 1 / 5 \<rparr>] \<rparr>] \<rparr>"

section \<open>Properties of the pitch policy\<close>

subsection \<open>Truncation\<close>

lemma py_int_mono: "x \<le> y \<Longrightarrow> py_int x \<le> py_int y"
proof -
  assume xy: "x \<le> y"
  show ?thesis
  proof (cases "0 \<le> x")
    case True
    with xy show ?thesis by (simp add: py_int_def floor_mono)
  next
    case False
    show ?thesis
    proof (cases "0 \<le> y")
      case True
      have "\<lceil>x\<rceil> \<le> 0" using False by (simp add: ceiling_le_zero)
      moreover have "0 \<le> \<lfloor>y\<rfloor>" using True by simp
      ultimately have "\<lceil>x\<rceil> \<le> \<lfloor>y\<rfloor>" by linarith
      then show ?thesis using False True by (simp add: py_int_def)
    next
      case ny: False
      with False xy show ?thesis by (simp add: py_int_def ceiling_mono)
    qed
  qed
qed

lemma py_int_of_int: "py_int (real_of_int k) = k"
  by (simp add: py_int_def)

subsection \<open>The stand-in generator keeps the contract\<close>

lemma demo_randint_bounds:
  assumes "low < high"
  shows "low \<le> low + int (g * 1103515245 + 12345) mod (high - low)"
    and "low + int (g * 1103515245 + 12345) mod (high - low) < high"
proof -
  have pos: "0 < high - low" using assms by simp
  have "0 \<le> int (g * 1103515245 + 12345) mod (high - low)"
    using pos by (rule pos_mod_sign)
  then show "low \<le> low + int (g * 1103515245 + 12345) mod (high - low)" by linarith
  have "int (g * 1103515245 + 12345) mod (high - low) < high - low"
    using pos by (rule pos_mod_bound)
  then show "low + int (g * 1103515245 + 12345) mod (high - low) < high" by linarith
qed

lemma demo_lib_randint_in_range: "randint_in_range demo_lib"
  unfolding randint_in_range_def
  using demo_randint_bounds by (simp add: demo_lib_def demo_randint_def)

subsection \<open>The documented range of the result\<close>

text \<open>
  C2. The docstring promises a MIDI pitch from 0 to 127 for every input. With the
  constants of the module, \<open>octaves\<close> mode returns 128 for index 80, and \<open>spread\<close> mode
  (which divides by the module constant \<open>MAX_UNITS - 1 = 15\<close>, not by the number of
  units processed) returns 129 for index 34: both are outside the promised range, for
  any identifier and any spikes.
\<close>

theorem pitch_exceeds_midi_range:
  "get_pitch_for_unit lib module_config g 80 uid spikes ''octaves'' = (Inr 128, g)
   \<and> get_pitch_for_unit lib module_config g 34 uid spikes ''spread'' = (Inr 129, g)"
  by (simp add: get_pitch_for_unit_def module_config_def py_int_def)

subsection \<open>\<open>firing_rate\<close> mode\<close>

text \<open>
  C5. In \<open>firing_rate\<close> mode, for a non-empty spike sequence the rate is
  \<open>count / (last - first)\<close> when that duration is positive and 0 otherwise; the rate
  over 50 is clamped at 1; the pitch is the truncation of
  \<open>min_pitch + clamped * (max_pitch - min_pitch)\<close>. For the empty sequence the pitch is
  the configured default. The generator is not touched.
\<close>

theorem firing_rate_pitch:
  "(spikes \<noteq> [] \<longrightarrow>
      get_pitch_for_unit lib cfg g unit_idx uid spikes ''firing_rate'' =
        (Inr (py_int (real_of_int (fst (PITCH_RANGE cfg))
                + min ((if last spikes - hd spikes > 0
                        then real (length spikes) / (last spikes - hd spikes) else 0) / 50) 1
                  * real_of_int (snd (PITCH_RANGE cfg) - fst (PITCH_RANGE cfg)))), g))
   \<and> get_pitch_for_unit lib cfg g unit_idx uid [] ''firing_rate'' = (Inr (DEFAULT_PITCH cfg), g)"
  by (simp add: get_pitch_for_unit_def Let_def split: prod.splits)

text \<open>Two spikes half a second apart: 4 Hz, pitch \<open>int(48 + 0.08 * 36) = 50\<close>.\<close>

theorem firing_rate_pitch_witness:
  "get_pitch_for_unit demo_lib module_config 0 3 7 [0, 1 / 2] ''firing_rate'' = (Inr 50, 0)
   \<and> get_pitch_for_unit demo_lib module_config 0 3 7 [] ''firing_rate'' = (Inr 60, 0)"
  using firing_rate_pitch [of "[0, 1 / 2]" demo_lib module_config 0 3 7]
  by (simp add: module_config_def py_int_def)

subsection \<open>\<open>random\<close> mode\<close>

lemma random_outcome:
  "fst (get_pitch_for_unit lib cfg g idx uid spikes ''random'')
     = (case random_seed lib uid of
          Inl e \<Rightarrow> Inl e
        | Inr g1 \<Rightarrow>
            (case random_randint lib g1 (fst (PITCH_RANGE cfg)) (snd (PITCH_RANGE cfg) + 1) of
               Inl e \<Rightarrow> Inl e
             | Inr pg \<Rightarrow> Inr (fst pg)))"
  by (simp add: get_pitch_for_unit_def split: sum.splits prod.splits)

text \<open>
  C6. In \<open>random\<close> mode the outcome (the pitch, or the error of the library) is the same
  for two calls with the same identifier and the same range, whatever the state of the
  global generator, the index and the spikes of each call: the generator is seeded from
  the identifier first. When the library accepts the identifier as a seed and
  \<open>randint\<close> keeps its contract, a pitch is returned and it lies in
  \<open>[min_pitch, max_pitch]\<close>, both ends included.
\<close>

theorem random_pitch:
  "fst (get_pitch_for_unit lib cfg g1 idx1 uid spikes1 ''random'')
     = fst (get_pitch_for_unit lib cfg g2 idx2 uid spikes2 ''random'')
   \<and> (randint_in_range lib \<and> PITCH_RANGE cfg = (min_pitch, max_pitch) \<and> min_pitch \<le> max_pitch
        \<and> random_seed lib uid = Inr g0
      \<longrightarrow> (\<exists>p. fst (get_pitch_for_unit lib cfg g1 idx1 uid spikes1 ''random'') = Inr p
                \<and> min_pitch \<le> p \<and> p \<le> max_pitch))"
proof (intro conjI impI)
  show "fst (get_pitch_for_unit lib cfg g1 idx1 uid spikes1 ''random'')
     = fst (get_pitch_for_unit lib cfg g2 idx2 uid spikes2 ''random'')"
    by (simp only: random_outcome)
next
  assume a: "randint_in_range lib \<and> PITCH_RANGE cfg = (min_pitch, max_pitch) \<and> min_pitch \<le> max_pitch
        \<and> random_seed lib uid = Inr g0"
  then have lt: "min_pitch < max_pitch + 1" by simp
  from a have c: "randint_in_range lib" by simp
  from c lt obtain p g' where d: "random_randint lib g0 min_pitch (max_pitch + 1) = Inr (p, g')"
      "min_pitch \<le> p" "p < max_pitch + 1"
    unfolding randint_in_range_def by (metis (full_types))
  have "fst (get_pitch_for_unit lib cfg g1 idx1 uid spikes1 ''random'') = Inr p"
    using a d(1) by (simp add: random_outcome)
  with d show "\<exists>p. fst (get_pitch_for_unit lib cfg g1 idx1 uid spikes1 ''random'') = Inr p
                \<and> min_pitch \<le> p \<and> p \<le> max_pitch" by auto
qed

theorem random_pitch_witness:
  "fst (get_pitch_for_unit demo_lib module_config 0 3 7 [] ''random'')
     = fst (get_pitch_for_unit demo_lib module_config 99 5 7 [1] ''random'')
   \<and> (\<exists>p. fst (get_pitch_for_unit demo_lib module_config 0 3 7 [] ''random'') = Inr p
           \<and> 48 \<le> p \<and> p \<le> 84)"
proof -
  have h: "randint_in_range demo_lib \<and> PITCH_RANGE module_config = (48, 84) \<and> (48::int) \<le> 84
        \<and> random_seed demo_lib 7 = Inr 7"
  proof (intro conjI)
    show "randint_in_range demo_lib" by (rule demo_lib_randint_in_range)
    show "PITCH_RANGE module_config = (48, 84)" by (simp add: module_config_def)
    show "(48::int) \<le> 84" by simp
    show "random_seed demo_lib 7 = Inr 7" by (simp add: demo_lib_def demo_seed_def)
  qed
  from random_pitch [of demo_lib module_config 0 3 7 "[]" 99 5 "[1]" 48 84 7] h
  show ?thesis by blast
qed

subsection \<open>\<open>spread\<close> mode\<close>

lemma spread_value_bounds:
  fixes lo hi :: int and i d :: int
  assumes "lo \<le> hi" "0 \<le> i" "i \<le> d" "1 \<le> d"
  shows "real_of_int lo \<le> real_of_int lo + (real_of_int i / real_of_int d) * real_of_int (hi - lo)"
    and "real_of_int lo + (real_of_int i / real_of_int d) * real_of_int (hi - lo) \<le> real_of_int hi"
proof -
  have f0: "0 \<le> real_of_int i / real_of_int d" using assms by simp
  have f1: "real_of_int i / real_of_int d \<le> 1" using assms by simp
  have w: "0 \<le> real_of_int (hi - lo)" using assms by simp
  have "0 \<le> (real_of_int i / real_of_int d) * real_of_int (hi - lo)"
    using f0 w by (rule mult_nonneg_nonneg)
  then show "real_of_int lo \<le> real_of_int lo + (real_of_int i / real_of_int d) * real_of_int (hi - lo)"
    by linarith
  have "(real_of_int i / real_of_int d) * real_of_int (hi - lo) \<le> 1 * real_of_int (hi - lo)"
    using f1 w by (rule mult_right_mono)
  then have "(real_of_int i / real_of_int d) * real_of_int (hi - lo) \<le> real_of_int hi - real_of_int lo"
    by simp
  then show "real_of_int lo + (real_of_int i / real_of_int d) * real_of_int (hi - lo) \<le> real_of_int hi"
    by linarith
qed

lemma spread_value_mono:
  fixes lo hi :: int and i j d :: int
  assumes "lo \<le> hi" "i \<le> j" "1 \<le> d"
  shows "real_of_int lo + (real_of_int i / real_of_int d) * real_of_int (hi - lo)
       \<le> real_of_int lo + (real_of_int j / real_of_int d) * real_of_int (hi - lo)"
proof -
  have "real_of_int i / real_of_int d \<le> real_of_int j / real_of_int d"
    using assms by (simp add: divide_right_mono)
  moreover have "0 \<le> real_of_int (hi - lo)" using assms by simp
  ultimately have "(real_of_int i / real_of_int d) * real_of_int (hi - lo)
      \<le> (real_of_int j / real_of_int d) * real_of_int (hi - lo)"
    by (rule mult_right_mono)
  then show ?thesis by linarith
qed

lemma spread_eq:
  "PITCH_RANGE cfg = (lo, hi) \<Longrightarrow>
   get_pitch_for_unit lib cfg g i uid spikes ''spread'' =
     (Inr (py_int (real_of_int lo
        + (real_of_int i / real_of_int (max (MAX_UNITS cfg - 1) 1)) * real_of_int (hi - lo))), g)"
  by (simp add: get_pitch_for_unit_def)

text \<open>
  C7. In \<open>spread\<close> mode, with a pitch range \<open>min_pitch \<le> max_pitch\<close>, for indices
  \<open>0 \<le> i \<le> j \<le> MAX_UNITS - 1\<close>: the pitch of \<open>i\<close> is the truncation of
  \<open>min_pitch + (i / max(MAX_UNITS - 1, 1)) * (max_pitch - min_pitch)\<close> (and likewise for
  \<open>j\<close>), the pitch of \<open>i\<close> is at most the pitch of \<open>j\<close>, and both lie in
  \<open>[min_pitch, max_pitch]\<close>.
\<close>

theorem spread_pitch:
  assumes r: "PITCH_RANGE cfg = (min_pitch, max_pitch)" and le: "min_pitch \<le> max_pitch"
    and i0: "0 \<le> i" and ij: "i \<le> j" and jm: "j \<le> MAX_UNITS cfg - 1"
  shows "\<exists>p q. get_pitch_for_unit lib cfg g i uid spikes ''spread'' = (Inr p, g)
           \<and> get_pitch_for_unit lib cfg g j uid' spikes' ''spread'' = (Inr q, g)
           \<and> p = py_int (real_of_int min_pitch
                   + (real_of_int i / real_of_int (max (MAX_UNITS cfg - 1) 1))
                     * real_of_int (max_pitch - min_pitch))
           \<and> q = py_int (real_of_int min_pitch
                   + (real_of_int j / real_of_int (max (MAX_UNITS cfg - 1) 1))
                     * real_of_int (max_pitch - min_pitch))
           \<and> p \<le> q \<and> min_pitch \<le> p \<and> p \<le> max_pitch \<and> min_pitch \<le> q \<and> q \<le> max_pitch"
proof -
  define d where "d = max (MAX_UNITS cfg - 1) 1"
  define v where "v k = real_of_int min_pitch
      + (real_of_int k / real_of_int d) * real_of_int (max_pitch - min_pitch)" for k
  have d1: "1 \<le> d" by (simp add: d_def)
  have id: "i \<le> d" and jd: "j \<le> d" and j0: "0 \<le> j" using i0 ij jm by (simp_all add: d_def)
  have vi: "real_of_int min_pitch \<le> v i" "v i \<le> real_of_int max_pitch"
    unfolding v_def using spread_value_bounds [OF le i0 id d1] by simp_all
  have vj: "real_of_int min_pitch \<le> v j" "v j \<le> real_of_int max_pitch"
    unfolding v_def using spread_value_bounds [OF le j0 jd d1] by simp_all
  have vij: "v i \<le> v j"
    unfolding v_def by (rule spread_value_mono [OF le ij d1])
  have bi: "min_pitch \<le> py_int (v i)" "py_int (v i) \<le> max_pitch"
    using py_int_mono [OF vi(1)] py_int_mono [OF vi(2)] by (simp_all add: py_int_of_int)
  have bj: "min_pitch \<le> py_int (v j)" "py_int (v j) \<le> max_pitch"
    using py_int_mono [OF vj(1)] py_int_mono [OF vj(2)] by (simp_all add: py_int_of_int)
  have m: "py_int (v i) \<le> py_int (v j)" by (rule py_int_mono [OF vij])
  have ei: "get_pitch_for_unit lib cfg g i uid spikes ''spread'' = (Inr (py_int (v i)), g)"
    unfolding v_def d_def by (rule spread_eq [OF r])
  have ej: "get_pitch_for_unit lib cfg g j uid' spikes' ''spread'' = (Inr (py_int (v j)), g)"
    unfolding v_def d_def by (rule spread_eq [OF r])
  show ?thesis
    using ei ej bi bj m unfolding v_def d_def by blast
qed

text \<open>With the module's constants: index 5 gets 60 and index 15 gets 84.\<close>

theorem spread_pitch_witness:
  "get_pitch_for_unit demo_lib module_config 0 5 7 [] ''spread'' = (Inr 60, 0)
   \<and> get_pitch_for_unit demo_lib module_config 0 15 8 [] ''spread'' = (Inr 84, 0)
   \<and> (60::int) \<le> 84 \<and> (48::int) \<le> 60 \<and> (84::int) \<le> 84"
  using spread_pitch [of module_config 48 84 5 15 demo_lib 0 7 "[]" 8 "[]"]
  by (simp add: module_config_def py_int_def)

subsection \<open>\<open>octaves\<close> mode\<close>

text \<open>
  C8. In \<open>octaves\<close> mode the pitch is \<open>48 + 12 * (index // 12) + index % 12\<close> for every
  index (Python's floor division and modulus are \<open>div\<close> and \<open>mod\<close> on \<open>int\<close>), whatever
  the configuration, the identifier, the spikes and the generator state, which is left
  as it was; so index 0 gets 48 and index 12 gets the pitch of index 0 plus 12.
\<close>

theorem octaves_pitch:
  "get_pitch_for_unit lib cfg g unit_idx uid spikes ''octaves''
     = (Inr (48 + 12 * (unit_idx div 12) + unit_idx mod 12), g)
   \<and> get_pitch_for_unit lib cfg g 0 uid spikes ''octaves'' = (Inr 48, g)
   \<and> (\<exists>p0. get_pitch_for_unit lib cfg g 0 uid spikes ''octaves'' = (Inr p0, g)
           \<and> get_pitch_for_unit lib cfg g 12 uid' spikes' ''octaves'' = (Inr (p0 + 12), g))"
  by (simp add: get_pitch_for_unit_def)

subsection \<open>Unrecognised mode\<close>

text \<open>
  C9. For a mode selector that is none of \<open>custom\<close>, \<open>spread\<close>, \<open>octaves\<close>,
  \<open>firing_rate\<close>, \<open>random\<close>, the function returns the configured default pitch (an
  \<open>Inr\<close>: no exception), whatever the index, the identifier and the spikes, and leaves
  the generator as it was.
\<close>

theorem unrecognized_mode_default:
  "mode \<notin> {''custom'', ''spread'', ''octaves'', ''firing_rate'', ''random''} \<Longrightarrow>
   get_pitch_for_unit lib cfg g unit_idx uid spikes mode = (Inr (DEFAULT_PITCH cfg), g)"
  by (simp add: get_pitch_for_unit_def)

theorem unrecognized_mode_default_witness:
  "get_pitch_for_unit demo_lib module_config 0 3 7 [1 / 2] ''loudness'' = (Inr 60, 0)"
  using unrecognized_mode_default [of "''loudness''" demo_lib module_config 0 3 7 "[1 / 2]"]
  by (simp add: module_config_def)

section \<open>Properties of the renderers\<close>

subsection \<open>The fallback chain\<close>

lemma is_Exception_caught: "is_Exception e \<Longrightarrow> caught e"
  by (simp add: caught_def)

lemma caught_iff: "caught e \<longleftrightarrow> is_Exception e"
  by (cases e) (simp_all add: caught_def)

text \<open>
  C4. The fallback chain of \<^verbatim>\<open>midi_to_wave_suyee.py\<close>, lines 34 to 48. The first strategy
  that succeeds wins: when the call with the soundfont returns a buffer, that buffer is
  the result and no other synthesizer is called; when it fails and the call without a
  soundfont returns a buffer, that buffer is the result and the built-in synthesizer is
  not called. A failure is caught whatever its class (any instance of \<open>Exception\<close>):
  when both calls fail, the built-in synthesizer is called exactly once and its outcome
  is the result.
\<close>

theorem fallback_chain:
  "(fluidsynth lib pm fs (Some soundfont) = Inr a \<longrightarrow>
       fst (synthesize_with_fallback lib pm fs) = Inr a
     \<and> calls (snd (synthesize_with_fallback lib pm fs)) = [Call_fluidsynth (Some soundfont)])
   \<and> (fluidsynth lib pm fs (Some soundfont) = Inl e1 \<and> is_Exception e1
       \<and> fluidsynth lib pm fs None = Inr a \<longrightarrow>
       fst (synthesize_with_fallback lib pm fs) = Inr a
     \<and> calls (snd (synthesize_with_fallback lib pm fs))
         = [Call_fluidsynth (Some soundfont), Call_fluidsynth None])
   \<and> (fluidsynth lib pm fs (Some soundfont) = Inl e1 \<and> is_Exception e1
       \<and> fluidsynth lib pm fs None = Inl e2 \<and> is_Exception e2 \<longrightarrow>
       fst (synthesize_with_fallback lib pm fs) = synthesize lib pm fs
     \<and> calls (snd (synthesize_with_fallback lib pm fs))
         = [Call_fluidsynth (Some soundfont), Call_fluidsynth None, Call_synthesize]
     \<and> count_list (snd (synthesize_with_fallback lib pm fs)) Call_synthesize = 1)"
  by (simp add: synthesize_with_fallback_def calls_def is_Exception_caught)

theorem fallback_chain_witness:
  "fst (synthesize_with_fallback (demo_synth (Inr [1 / 2]) (Inr [1]) (Inr [2])) empty_midi 44100)
      = Inr [1 / 2]
   \<and> calls (snd (synthesize_with_fallback (demo_synth (Inr [1 / 2]) (Inr [1]) (Inr [2])) empty_midi 44100))
      = [Call_fluidsynth (Some soundfont)]
   \<and> fst (synthesize_with_fallback (demo_synth (Inl OSError) (Inr [1]) (Inr [2])) empty_midi 44100)
      = Inr [1]
   \<and> calls (snd (synthesize_with_fallback (demo_synth (Inl OSError) (Inr [1]) (Inr [2])) empty_midi 44100))
      = [Call_fluidsynth (Some soundfont), Call_fluidsynth None]
   \<and> fst (synthesize_with_fallback (demo_synth (Inl ImportError) (Inl ImportError) (Inr [2])) empty_midi 44100)
      = Inr [2]
   \<and> count_list (snd (synthesize_with_fallback (demo_synth (Inl ImportError) (Inl ImportError) (Inr [2]))
         empty_midi 44100)) Call_synthesize = 1"
  using fallback_chain [of "demo_synth (Inr [1 / 2]) (Inr [1]) (Inr [2])" empty_midi 44100 "[1 / 2]"]
    fallback_chain [of "demo_synth (Inl OSError) (Inr [1]) (Inr [2])" empty_midi 44100 "[1]" OSError]
    fallback_chain [of "demo_synth (Inl ImportError) (Inl ImportError) (Inr [2])" empty_midi 44100 "[]"
       ImportError ImportError]
  by (simp add: demo_synth_def)

text \<open>
  A signal that is not an \<open>Exception\<close> (an interrupt) is not a failure of a strategy: it
  leaves the chain at once.
\<close>

lemma interrupt_escapes:
  "fluidsynth lib pm fs (Some soundfont) = Inl KeyboardInterrupt \<Longrightarrow>
   synthesize_with_fallback lib pm fs = (Inl KeyboardInterrupt, [Call_fluidsynth (Some soundfont)])"
  by (simp add: synthesize_with_fallback_def caught_def)

subsection \<open>Empty and non-empty buffers\<close>

lemma np_max_nonempty:
  assumes "xs \<noteq> []"
  shows "np_max xs = Inr (Max (set xs))"
proof (cases xs)
  case Nil
  with assms show ?thesis by simp
next
  case (Cons x ys)
  have "Max (set (x # ys)) = fold max ys x" by (rule Max.set_eq_fold)
  then show ?thesis using Cons by simp
qed

lemma r_files_emit: "r_files (emit es s) = r_files s"
  by (simp add: emit_def)

lemma r_trace_emit: "r_trace (emit es s) = r_trace s @ es"
  by (simp add: emit_def)

text \<open>
  C3. The renderer is to print a warning and return, writing no file, when synthesis
  yields no samples. \<open>midi_to_wav_suyee\<close> does so (\<open>suyee_empty_audio\<close> below), and both
  renderers divide every sample of a non-empty buffer by the peak before quantizing
  (\<open>suyee_normalizes\<close>, \<open>plain_normalizes\<close>). The plain renderer \<open>midi_to_wav\<close> has no
  guard: on the document without instruments, for which the synthesizer returns the
  empty buffer, \<open>np.max\<close> raises \<open>ValueError\<close>; no file is written, but no warning is
  printed and the call does not return.
\<close>

theorem midi_to_wav_empty_audio_raises:
  "fst (midi_to_wav (demo_synth (Inr []) (Inr []) (Inr [])) empty_midi_state ''in.mid'' ''out.wav'' 44100)
     = Inl ValueError
   \<and> r_files (snd (midi_to_wav (demo_synth (Inr []) (Inr []) (Inr [])) empty_midi_state
         ''in.mid'' ''out.wav'' 44100)) ''out.wav'' = None
   \<and> Print ''Warning: No audio data generated!''
       \<notin> set (r_trace (snd (midi_to_wav (demo_synth (Inr []) (Inr []) (Inr [])) empty_midi_state
             ''in.mid'' ''out.wav'' 44100)))"
  by (simp add: midi_to_wav_def demo_synth_def empty_midi_state_def load_midi_def emit_def
      np_abs_def Let_def)

lemma midi_to_wav_empty_audio:
  assumes "load_midi (r_files s) midi_file = Inr pm"
    and "fluidsynth lib pm sample_rate None = Inr []"
  shows "midi_to_wav lib s midi_file output_wav sample_rate
     = (Inl ValueError,
        emit [Print (''Loading MIDI file: '' @ midi_file),
              Print ''Synthesizing audio (this may take a moment)...'',
              Call_fluidsynth None] s)"
  using assms by (simp add: midi_to_wav_def Let_def emit_def np_abs_def)

lemma suyee_empty_audio:
  assumes "load_midi (r_files s) midi_file = Inr pm"
    and "synthesize_with_fallback lib pm sample_rate = (Inr [], events)"
  shows "midi_to_wav_suyee lib s midi_file output_wav sample_rate
     = (Inr (),
        emit ([Print (''Loading MIDI file: '' @ midi_file),
               Print ''Synthesizing audio (this may take a moment)...''] @ events
              @ [Print ''Warning: No audio data generated!'']) s)"
  using assms by (simp add: midi_to_wav_suyee_def Let_def emit_def)

lemma r_files_write_pcm:
  "wav_write_error lib output_wav = None \<Longrightarrow>
   r_files (snd (write_pcm lib s output_wav sample_rate audio)) output_wav
     = Some (WavFile sample_rate (map (\<lambda>v. astype_int16 (np_multiply v 32767)) audio))"
  by (simp add: write_pcm_def Let_def emit_def)

lemma suyee_normalizes:
  assumes "load_midi (r_files s) midi_file = Inr pm"
    and "synthesize_with_fallback lib pm sample_rate = (Inr audio, events)"
    and "audio \<noteq> []"
    and "wav_write_error lib output_wav = None"
  shows "r_files (snd (midi_to_wav_suyee lib s midi_file output_wav sample_rate)) output_wav
     = Some (WavFile sample_rate
         (map (\<lambda>x. astype_int16 (np_multiply (np_true_divide x (Max (set (map abs audio)))) 32767))
              audio))"
  using assms
  by (simp add: midi_to_wav_suyee_def Let_def r_files_emit np_abs_def np_max_nonempty
      r_files_write_pcm comp_def)

lemma plain_normalizes:
  assumes "load_midi (r_files s) midi_file = Inr pm"
    and "fluidsynth lib pm sample_rate None = Inr audio"
    and "audio \<noteq> []"
    and "wav_write_error lib output_wav = None"
  shows "r_files (snd (midi_to_wav lib s midi_file output_wav sample_rate)) output_wav
     = Some (WavFile sample_rate
         (map (\<lambda>x. astype_int16 (np_multiply (np_true_divide x (Max (set (map abs audio)))) 32767))
              audio))"
  using assms
  by (simp add: midi_to_wav_def Let_def r_files_emit np_abs_def np_max_nonempty
      r_files_write_pcm comp_def)

section \<open>Properties of the converter\<close>

subsection \<open>The loop over the units\<close>

lemma get_pitch_returns:
  assumes "pitch_defined lib cfg mode uid"
  shows "\<exists>p g'. get_pitch_for_unit lib cfg g idx uid spikes mode = (Inr p, g')"
proof (cases "mode = ''random''")
  case True
  with assms obtain g1 p g2 where "random_seed lib uid = Inr g1"
    "random_randint lib g1 (fst (PITCH_RANGE cfg)) (snd (PITCH_RANGE cfg) + 1) = Inr (p, g2)"
    by (auto simp: pitch_defined_def)
  with True show ?thesis
    by (cases "PITCH_RANGE cfg") (simp add: get_pitch_for_unit_def)
next
  case False
  then show ?thesis
    by (simp add: get_pitch_for_unit_def Let_def split: prod.splits)
qed

lemma process_units_ok:
  assumes "\<forall>r\<in>set rs. parse_spike_times lib (spike_times r) = Inr sp
              \<and> pitch_defined lib cfg mode (unit_id r)"
  shows "\<exists>new g'. process_units lib cfg ts nd bv mode idx rs pm g
             = (Inr (pm\<lparr>instruments := instruments pm @ new\<rparr>), g')
         \<and> length new = length rs
         \<and> (\<forall>k<length rs.
               program (new ! k) = (idx + int k) mod 128
             \<and> name (new ! k) = ''Unit_'' @ str_int (unit_id (rs ! k))
             \<and> (\<exists>p. inst_notes (new ! k)
                    = map (\<lambda>s. \<lparr> velocity = bv, pitch = p, start = s * ts,
                                  note_end = s * ts + nd \<rparr>) sp))"
  using assms
proof (induction rs arbitrary: idx pm g)
  case Nil
  show ?case by simp
next
  case (Cons r rest)
  from Cons.prems have pr: "parse_spike_times lib (spike_times r) = Inr sp"
    and pd: "pitch_defined lib cfg mode (unit_id r)"
    and rest: "\<forall>r\<in>set rest. parse_spike_times lib (spike_times r) = Inr sp
              \<and> pitch_defined lib cfg mode (unit_id r)"
    by simp_all
  from get_pitch_returns [OF pd] obtain p g1
    where gp: "get_pitch_for_unit lib cfg g idx (unit_id r) sp mode = (Inr p, g1)" by blast
  define inst where "inst = \<lparr> program = idx mod 128, name = ''Unit_'' @ str_int (unit_id r),
      inst_notes = map (\<lambda>spike_time. \<lparr> velocity = bv, pitch = p, start = spike_time,
                                        note_end = spike_time + nd \<rparr>) (map (\<lambda>s. s * ts) sp) \<rparr>"
  define pm1 where "pm1 = pm\<lparr>instruments := instruments pm @ [inst]\<rparr>"
  have step: "process_units lib cfg ts nd bv mode idx (r # rest) pm g
      = process_units lib cfg ts nd bv mode (idx + 1) rest pm1 g1"
    by (simp add: pr gp Let_def inst_def pm1_def)
  from Cons.IH [OF rest, of "idx + 1" pm1 g1] obtain new g'
    where ih: "process_units lib cfg ts nd bv mode (idx + 1) rest pm1 g1
                 = (Inr (pm1\<lparr>instruments := instruments pm1 @ new\<rparr>), g')"
      and len: "length new = length rest"
      and each: "\<forall>k<length rest.
               program (new ! k) = (idx + 1 + int k) mod 128
             \<and> name (new ! k) = ''Unit_'' @ str_int (unit_id (rest ! k))
             \<and> (\<exists>p. inst_notes (new ! k)
                    = map (\<lambda>s. \<lparr> velocity = bv, pitch = p, start = s * ts,
                                  note_end = s * ts + nd \<rparr>) sp)"
    by blast
  have doc: "pm1\<lparr>instruments := instruments pm1 @ new\<rparr>
      = pm\<lparr>instruments := instruments pm @ (inst # new)\<rparr>"
    by (simp add: pm1_def)
  have first: "program inst = (idx + int 0) mod 128
      \<and> name inst = ''Unit_'' @ str_int (unit_id r)
      \<and> (\<exists>p. inst_notes inst = map (\<lambda>s. \<lparr> velocity = bv, pitch = p, start = s * ts,
                                  note_end = s * ts + nd \<rparr>) sp)"
    by (simp add: inst_def comp_def)
  have all: "\<forall>k<length (r # rest).
               program ((inst # new) ! k) = (idx + int k) mod 128
             \<and> name ((inst # new) ! k) = ''Unit_'' @ str_int (unit_id ((r # rest) ! k))
             \<and> (\<exists>p. inst_notes ((inst # new) ! k)
                    = map (\<lambda>s. \<lparr> velocity = bv, pitch = p, start = s * ts,
                                  note_end = s * ts + nd \<rparr>) sp)"
  proof (intro allI impI)
    fix k assume k: "k < length (r # rest)"
    show "program ((inst # new) ! k) = (idx + int k) mod 128
             \<and> name ((inst # new) ! k) = ''Unit_'' @ str_int (unit_id ((r # rest) ! k))
             \<and> (\<exists>p. inst_notes ((inst # new) ! k)
                    = map (\<lambda>s. \<lparr> velocity = bv, pitch = p, start = s * ts,
                                  note_end = s * ts + nd \<rparr>) sp)"
    proof (cases k)
      case 0
      with first show ?thesis by simp
    next
      case (Suc j)
      with k have "j < length rest" by simp
      with each have "program (new ! j) = (idx + 1 + int j) mod 128
             \<and> name (new ! j) = ''Unit_'' @ str_int (unit_id (rest ! j))
             \<and> (\<exists>p. inst_notes (new ! j)
                    = map (\<lambda>s. \<lparr> velocity = bv, pitch = p, start = s * ts,
                                  note_end = s * ts + nd \<rparr>) sp)" by blast
      moreover have "idx + 1 + int j = idx + int (Suc j)" by simp
      ultimately show ?thesis using Suc by simp
    qed
  qed
  show ?case
    using step ih doc len all by (intro exI [of _ "inst # new"] exI [of _ g']) simp
qed

subsection \<open>Loading, truncation and the summary\<close>

lemma limit_units_take: "0 \<le> max_units \<Longrightarrow> limit_units max_units df = take (nat max_units) df"
  by (simp add: limit_units_def)

lemma set_limit_units: "set (limit_units max_units df) \<subseteq> set df"
  by (auto simp: limit_units_def dest: in_set_takeD)

lemma note_ends_empty:
  "\<forall>inst\<in>set (instruments pm). inst_notes inst = [] \<Longrightarrow> note_ends pm = []"
  by (simp add: note_ends_def)

lemma note_ends_nonempty:
  assumes "inst \<in> set (instruments pm)" "inst_notes inst \<noteq> []"
  shows "note_ends pm \<noteq> []"
  using assms by (auto simp: note_ends_def)

lemma py_max_returns: "xs \<noteq> [] \<Longrightarrow> \<exists>m. py_max xs = Inr m"
  by (cases xs) simp_all

lemma create_after_load:
  assumes read: "read_parquet (c_files w) parquet_file = Inr df0"
    and sel: "filter_units lib units_to_sonify df0 = Inr df1"
    and run: "process_units lib cfg time_scale note_duration base_velocity pitch_mode 0
                (limit_units max_units df1) \<lparr> initial_tempo = 120, instruments = [] \<rparr> (c_rng w)
              = (Inr pm, g)"
    and wr: "write_error lib output_midi pm = None"
  shows "create_midi_from_spikes lib cfg w parquet_file output_midi time_scale note_duration
           base_velocity units_to_sonify max_units pitch_mode
         = (case py_max (note_ends pm) of Inl e \<Rightarrow> Inl e | Inr d \<Rightarrow> Inr pm,
            \<lparr> c_files = (c_files w)(output_midi \<mapsto> MidiFile pm), c_rng = g \<rparr>)"
  using assms by (simp add: create_midi_from_spikes_def Let_def split: sum.splits)

subsection \<open>Evaluation on the example tables\<close>

lemma parse_one_spike: "parse_spike_times demo_lib ''[1.5]'' = Inr [3 / 2]"
  by (simp add: parse_spike_times_def strip_brackets_def is_bracket_def split_ws_def is_space_def
      demo_lib_def demo_float_def)

lemma parse_no_spike:
  "parse_spike_times demo_lib ''[]'' = Inr []" "parse_spike_times demo_lib ''[ ]'' = Inr []"
  by (simp_all add: parse_spike_times_def strip_brackets_def is_bracket_def split_ws_def is_space_def)

lemma str_int_7: "str_int 7 = ''7''"
  by (simp add: str_int_def str_nat.simps digit_char_def)

lemma demo_write_ok: "write_error demo_lib path pm = None"
  by (simp add: demo_lib_def)

lemma custom_pitch_defined: "pitch_defined lib cfg ''custom'' uid"
  by (simp add: pitch_defined_def)

lemma read_two_units: "read_parquet (c_files two_unit_world) ''spikes.parquet'' = Inr two_unit_table"
  by (simp add: read_parquet_def two_unit_world_def)

lemma read_silent: "read_parquet (c_files silent_world) ''spikes.parquet'' = Inr silent_table"
  by (simp add: read_parquet_def silent_world_def)

subsection \<open>Units without spikes\<close>

text \<open>
  C10. When the table is read, the optional selection succeeds, every processed unit
  (the rows left after selection and truncation) has an empty spike sequence, pitch
  assignment raises for none of them and the writer accepts the document, then
  \<open>create_midi_from_spikes\<close> raises \<open>ValueError\<close> from \<open>max\<close> of the empty list of note
  ends, after the MIDI file has been written: the file holds the document, with one
  instrument per processed unit and no note.
\<close>

theorem empty_spikes_raise_after_write:
  assumes read: "read_parquet (c_files w) parquet_file = Inr df0"
    and sel: "filter_units lib units_to_sonify df0 = Inr df1"
    and silent: "\<forall>r\<in>set (limit_units max_units df1).
                   parse_spike_times lib (spike_times r) = Inr []"
    and pitches: "\<forall>r\<in>set (limit_units max_units df1). pitch_defined lib cfg pitch_mode (unit_id r)"
    and wr: "\<forall>pm. write_error lib output_midi pm = None"
  shows "\<exists>pm w'. create_midi_from_spikes lib cfg w parquet_file output_midi time_scale
                    note_duration base_velocity units_to_sonify max_units pitch_mode
                  = (Inl ValueError, w')
           \<and> c_files w' output_midi = Some (MidiFile pm)
           \<and> length (instruments pm) = length (limit_units max_units df1)
           \<and> (\<forall>inst\<in>set (instruments pm). inst_notes inst = [])"
proof -
  let ?rows = "limit_units max_units df1"
  let ?pm0 = "\<lparr> initial_tempo = 120, instruments = [] \<rparr>"
  have h: "\<forall>r\<in>set ?rows. parse_spike_times lib (spike_times r) = Inr []
              \<and> pitch_defined lib cfg pitch_mode (unit_id r)"
    using silent pitches by blast
  from process_units_ok [OF h, of time_scale note_duration base_velocity 0 ?pm0 "c_rng w"]
  obtain new g where run: "process_units lib cfg time_scale note_duration base_velocity pitch_mode 0
        ?rows ?pm0 (c_rng w) = (Inr (?pm0\<lparr>instruments := instruments ?pm0 @ new\<rparr>), g)"
    and len: "length new = length ?rows"
    and each: "\<forall>k<length ?rows. \<exists>p. inst_notes (new ! k)
        = map (\<lambda>s. \<lparr> velocity = base_velocity, pitch = p, start = s * time_scale,
                      note_end = s * time_scale + note_duration \<rparr>) []"
    by blast
  define pm where "pm = ?pm0\<lparr>instruments := instruments ?pm0 @ new\<rparr>"
  have insts: "instruments pm = new" by (simp add: pm_def)
  have none: "\<forall>inst\<in>set (instruments pm). inst_notes inst = []"
  proof
    fix inst assume "inst \<in> set (instruments pm)"
    then obtain k where "k < length new" "inst = new ! k"
      unfolding insts by (auto simp: in_set_conv_nth)
    with each len show "inst_notes inst = []" by auto
  qed
  have raise: "py_max (note_ends pm) = Inl ValueError"
    using note_ends_empty [OF none] by simp
  have "create_midi_from_spikes lib cfg w parquet_file output_midi time_scale
                    note_duration base_velocity units_to_sonify max_units pitch_mode
      = (Inl ValueError, \<lparr> c_files = (c_files w)(output_midi \<mapsto> MidiFile pm), c_rng = g \<rparr>)"
    using create_after_load [OF read sel run [folded pm_def]] wr raise by simp
  then show ?thesis using insts len none by auto
qed

theorem empty_spikes_raise_after_write_witness:
  "\<exists>pm w'. create_midi_from_spikes demo_lib module_config silent_world ''spikes.parquet''
              ''out.mid'' (1 / 10) (1 / 20) 80 None 16 ''firing_rate'' = (Inl ValueError, w')
         \<and> c_files w' ''out.mid'' = Some (MidiFile pm)
         \<and> length (instruments pm) = 2"
proof -
  have sel: "filter_units demo_lib None silent_table = Inr silent_table"
    by (simp add: filter_units_def)
  have rows: "limit_units 16 silent_table = silent_table"
    by (simp add: limit_units_def silent_table_def)
  have silent: "\<forall>r\<in>set (limit_units 16 silent_table).
      parse_spike_times demo_lib (spike_times r) = Inr []"
    unfolding rows by (simp add: silent_table_def parse_no_spike)
  have pd: "\<forall>r\<in>set (limit_units 16 silent_table).
      pitch_defined demo_lib module_config ''firing_rate'' (unit_id r)"
    by (simp add: pitch_defined_def)
  have wr: "\<forall>pm. write_error demo_lib ''out.mid'' pm = None"
    by (simp add: demo_write_ok)
  from empty_spikes_raise_after_write [OF read_silent sel silent pd wr, of "1 / 10" "1 / 20" 80]
  obtain pm w' where r: "create_midi_from_spikes demo_lib module_config silent_world
        ''spikes.parquet'' ''out.mid'' (1 / 10) (1 / 20) 80 None 16 ''firing_rate''
          = (Inl ValueError, w')"
      "c_files w' ''out.mid'' = Some (MidiFile pm)"
      "length (instruments pm) = length (limit_units 16 silent_table)"
    by blast
  have "length (instruments pm) = 2" using r(3) unfolding rows by (simp add: silent_table_def)
  with r(1,2) show ?thesis by blast
qed

subsection \<open>One spike per unit\<close>

text \<open>
  C1 as stated promises \<open>N\<close> instruments for a table of \<open>N\<close> units. The converter
  keeps the first \<open>max_units\<close> rows only: the table of two units, converted with
  \<open>max_units = 1\<close>, gives a document with one instrument.
\<close>

theorem truncation_counterexample:
  "fst (create_midi_from_spikes demo_lib module_config two_unit_world ''spikes.parquet''
          ''out.mid'' (1 / 10) (1 / 20) 80 None 1 ''custom'') = Inr first_unit_only
   \<and> length (instruments first_unit_only) = 1
   \<and> length two_unit_table = 2"
proof -
  have sel: "filter_units demo_lib None two_unit_table = Inr two_unit_table"
    by (simp add: filter_units_def)
  have rows: "limit_units 1 two_unit_table = [\<lparr> unit_id = 7, spike_times = ''[1.5]'' \<rparr>]"
    by (simp add: limit_units_def two_unit_table_def)
  have gp: "get_pitch_for_unit demo_lib module_config 0 0 7 [3 / 2] ''custom'' = (Inr 60, 0)"
    by (simp add: get_pitch_for_unit_def module_config_def)
  have run: "process_units demo_lib module_config (1 / 10) (1 / 20) 80 ''custom'' 0
       (limit_units 1 two_unit_table) \<lparr> initial_tempo = 120, instruments = [] \<rparr>
       (c_rng two_unit_world) = (Inr first_unit_only, 0)"
    by (simp add: rows parse_one_spike gp str_int_7 first_unit_only_def two_unit_world_def)
  have ends: "py_max (note_ends first_unit_only) = Inr (1 / 5)"
    by (simp add: note_ends_def first_unit_only_def)
  have "fst (create_midi_from_spikes demo_lib module_config two_unit_world ''spikes.parquet''
          ''out.mid'' (1 / 10) (1 / 20) 80 None 1 ''custom'') = Inr first_unit_only"
    using create_after_load [OF read_two_units sel run demo_write_ok] ends by simp
  then show ?thesis by (simp add: first_unit_only_def two_unit_table_def)
qed

text \<open>
  C1, as amended. For a table of \<open>N \<ge> 1\<close> units, each with exactly one spike at time
  \<open>t\<close>, no subset selector and \<open>max_units \<ge> 1\<close>, when pitch assignment raises for no unit
  and the writer accepts the document: \<open>create_midi_from_spikes\<close> writes and returns a
  document with exactly \<open>min(N, max_units)\<close> instruments, where the instrument at index
  \<open>i\<close> has program \<open>i mod 128\<close> and exactly one note, with start \<open>t * time_scale\<close>, end
  \<open>start + note_duration\<close> and velocity \<open>base_velocity\<close>.
\<close>

theorem one_spike_per_unit:
  assumes read: "read_parquet (c_files w) parquet_file = Inr df"
    and one: "\<forall>r\<in>set df. parse_spike_times lib (spike_times r) = Inr [t]"
    and pitches: "\<forall>r\<in>set df. pitch_defined lib cfg pitch_mode (unit_id r)"
    and wr: "\<forall>pm. write_error lib output_midi pm = None"
    and n1: "df \<noteq> []" and m1: "1 \<le> max_units"
  shows "\<exists>pm w'. create_midi_from_spikes lib cfg w parquet_file output_midi time_scale
                    note_duration base_velocity None max_units pitch_mode
                  = (Inr pm, w')
           \<and> c_files w' output_midi = Some (MidiFile pm)
           \<and> length (instruments pm) = min (length df) (nat max_units)
           \<and> (\<forall>i<length (instruments pm).
                  program (instruments pm ! i) = int i mod 128
                \<and> (\<exists>p. inst_notes (instruments pm ! i)
                       = [\<lparr> velocity = base_velocity, pitch = p, start = t * time_scale,
                            note_end = t * time_scale + note_duration \<rparr>]))"
proof -
  let ?rows = "limit_units max_units df"
  let ?pm0 = "\<lparr> initial_tempo = 120, instruments = [] \<rparr>"
  have sel: "filter_units lib None df = Inr df" by (simp add: filter_units_def)
  have sub: "set ?rows \<subseteq> set df" by (rule set_limit_units)
  have h: "\<forall>r\<in>set ?rows. parse_spike_times lib (spike_times r) = Inr [t]
              \<and> pitch_defined lib cfg pitch_mode (unit_id r)"
    using one pitches sub by blast
  have rows_len: "length ?rows = min (length df) (nat max_units)"
    using m1 by (simp add: limit_units_take)
  have rows_pos: "0 < length ?rows"
    using n1 m1 rows_len by (cases df) simp_all
  from process_units_ok [OF h, of time_scale note_duration base_velocity 0 ?pm0 "c_rng w"]
  obtain new g where run: "process_units lib cfg time_scale note_duration base_velocity pitch_mode 0
        ?rows ?pm0 (c_rng w) = (Inr (?pm0\<lparr>instruments := instruments ?pm0 @ new\<rparr>), g)"
    and len: "length new = length ?rows"
    and each: "\<forall>k<length ?rows. program (new ! k) = (0 + int k) mod 128
        \<and> (\<exists>p. inst_notes (new ! k)
        = map (\<lambda>s. \<lparr> velocity = base_velocity, pitch = p, start = s * time_scale,
                      note_end = s * time_scale + note_duration \<rparr>) [t])"
    by blast
  define pm where "pm = ?pm0\<lparr>instruments := instruments ?pm0 @ new\<rparr>"
  have insts: "instruments pm = new" by (simp add: pm_def)
  have each': "\<forall>i<length (instruments pm).
                  program (instruments pm ! i) = int i mod 128
                \<and> (\<exists>p. inst_notes (instruments pm ! i)
                       = [\<lparr> velocity = base_velocity, pitch = p, start = t * time_scale,
                            note_end = t * time_scale + note_duration \<rparr>])"
    using each len insts by simp
  have "new ! 0 \<in> set (instruments pm)" "inst_notes (new ! 0) \<noteq> []"
    using each rows_pos len insts by (auto simp: in_set_conv_nth)
  then have "note_ends pm \<noteq> []" by (rule note_ends_nonempty)
  then obtain d where mx: "py_max (note_ends pm) = Inr d" using py_max_returns by blast
  have "create_midi_from_spikes lib cfg w parquet_file output_midi time_scale
                    note_duration base_velocity None max_units pitch_mode
      = (Inr pm, \<lparr> c_files = (c_files w)(output_midi \<mapsto> MidiFile pm), c_rng = g \<rparr>)"
    using create_after_load [OF read sel run [folded pm_def]] wr mx by simp
  then show ?thesis using insts len rows_len each' by auto
qed
theorem one_spike_per_unit_witness:
  "\<exists>pm w'. create_midi_from_spikes demo_lib module_config two_unit_world ''spikes.parquet''
              ''out.mid'' (1 / 10) (1 / 20) 80 None 16 ''custom'' = (Inr pm, w')
         \<and> c_files w' ''out.mid'' = Some (MidiFile pm)
         \<and> length (instruments pm) = 2
         \<and> program (instruments pm ! 1) = 1
         \<and> (\<exists>p. inst_notes (instruments pm ! 1)
                = [\<lparr> velocity = 80, pitch = p, start = 3 / 20, note_end = 1 / 5 \<rparr>])"
proof -
  have one: "\<forall>r\<in>set two_unit_table. parse_spike_times demo_lib (spike_times r) = Inr [3 / 2]"
    by (simp add: two_unit_table_def parse_one_spike)
  have pd: "\<forall>r\<in>set two_unit_table. pitch_defined demo_lib module_config ''custom'' (unit_id r)"
    by (simp add: custom_pitch_defined)
  have wr: "\<forall>pm. write_error demo_lib ''out.mid'' pm = None"
    by (simp add: demo_write_ok)
  have ne: "two_unit_table \<noteq> []" by (simp add: two_unit_table_def)
  have m: "(1::int) \<le> 16" by simp
  from one_spike_per_unit [OF read_two_units one pd wr ne m, of "1 / 10" "1 / 20" 80]
  obtain pm w' where r: "create_midi_from_spikes demo_lib module_config two_unit_world
        ''spikes.parquet'' ''out.mid'' (1 / 10) (1 / 20) 80 None 16 ''custom'' = (Inr pm, w')"
      "c_files w' ''out.mid'' = Some (MidiFile pm)"
      "length (instruments pm) = min (length two_unit_table) (nat 16)"
      "\<forall>i<length (instruments pm).
          program (instruments pm ! i) = int i mod 128
        \<and> (\<exists>p. inst_notes (instruments pm ! i)
               = [\<lparr> velocity = 80, pitch = p, start = 3 / 2 * (1 / 10),
                    note_end = 3 / 2 * (1 / 10) + 1 / 20 \<rparr>])"
    by blast
  have len: "length (instruments pm) = 2" using r(3) by (simp add: two_unit_table_def)
  with r(4) have "program (instruments pm ! 1) = int 1 mod 128
        \<and> (\<exists>p. inst_notes (instruments pm ! 1)
               = [\<lparr> velocity = 80, pitch = p, start = 3 / 2 * (1 / 10),
                    note_end = 3 / 2 * (1 / 10) + 1 / 20 \<rparr>])" by simp
  then have "program (instruments pm ! 1) = 1
        \<and> (\<exists>p. inst_notes (instruments pm ! 1)
               = [\<lparr> velocity = 80, pitch = p, start = 3 / 20, note_end = 1 / 5 \<rparr>])" by simp
  with r(1,2) len show ?thesis by blast
qed


end
